theory Spec2Isabelle
  imports Complex_Main "HOL-Library.AList"
begin

section \<open>Python values, exceptions and the structured log\<close>

text \<open>
  The values that \<open>json.loads\<close> and the YAML configuration loader hand to
  \<open>utils/model_loader.py\<close>.  A \<open>str\<close> is a list of characters, one \<open>char\<close> per
  code point (code points up to 255); a \<open>dict\<close> is an association list in insertion
  order, keyed by strings, read with \<open>map_of\<close>.  A \<open>float\<close> is carried by its value:
  the module only passes floats on and tests them for zero.
\<close>

datatype pyval =
    PNone
  | PBool bool
  | PInt int
  | PFloat rat
  | PStr string
  | PList "pyval list"
  | PDict "(string \<times> pyval) list"

text \<open>
  The exceptions of the module.  \<open>KeyError\<close> and \<open>ValueError\<close> carry their argument;
  \<open>TypeError\<close> and \<open>AttributeError\<close> are raised by the interpreter and their texts
  are not modelled; \<open>JSONDecodeError\<close> and \<open>SdkError\<close> come out of \<open>json.loads\<close>
  and of the provider SDK factories.  \<open>DocumentPortalException msg ctx\<close> is the
  application error built by \<open>DocumentPortalException(msg, sys)\<close>.

  Modelled from the spec: the class \<open>exception.custom_exception.DocumentPortalException\<close>
  is the "exception-wrapping facility that tags errors with originating context".
  Its value holds the message it was constructed with and \<open>ctx\<close>, the exception
  that was being handled when it was raised (what \<open>sys.exc_info()\<close> yields there,
  and what the interpreter stores as the implicit exception context); \<open>None\<close> when
  it is raised outside any handler.
\<close>

datatype py_exc =
    KeyError string
  | ValueError string
  | TypeError
  | AttributeError
  | JSONDecodeError string
  | SdkError string
  | DocumentPortalException string "py_exc option"

text \<open>
  The logger takes an event text and keyword fields.  A field is a Python value, or
  \<open>str(e)\<close> of an exception \<open>e\<close>, kept as \<open>StrOf e\<close>.
\<close>

datatype log_level = INFO | WARNING | ERROR

datatype log_field = Val pyval | StrOf py_exc

record log_entry =
  level :: log_level
  event :: string
  kwargs :: "(string \<times> log_field) list"

definition log_info :: "string \<Rightarrow> (string \<times> log_field) list \<Rightarrow> log_entry" where
  "log_info ev fs = \<lparr>level = INFO, event = ev, kwargs = fs\<rparr>"

definition log_warning :: "string \<Rightarrow> (string \<times> log_field) list \<Rightarrow> log_entry" where
  "log_warning ev fs = \<lparr>level = WARNING, event = ev, kwargs = fs\<rparr>"

definition log_error :: "string \<Rightarrow> (string \<times> log_field) list \<Rightarrow> log_entry" where
  "log_error ev fs = \<lparr>level = ERROR, event = ev, kwargs = fs\<rparr>"

text \<open>Truth value testing of Python: \<open>if v\<close> and \<open>not v\<close>.\<close>

fun truthy :: "pyval \<Rightarrow> bool" where
  "truthy PNone = False"
| "truthy (PBool b) = b"
| "truthy (PInt i) = (i \<noteq> 0)"
| "truthy (PFloat r) = (r \<noteq> 0)"
| "truthy (PStr s) = (s \<noteq> [])"
| "truthy (PList xs) = (xs \<noteq> [])"
| "truthy (PDict d) = (d \<noteq> [])"

text \<open>\<open>d.get(k)\<close> on a dict: the value, or Python's \<open>None\<close> for a missing key.\<close>

definition dict_get :: "(string \<times> pyval) list \<Rightarrow> string \<Rightarrow> pyval" where
  "dict_get d k = (case map_of d k of None \<Rightarrow> PNone | Some v \<Rightarrow> v)"

text \<open>The process environment, read by \<open>os.getenv\<close>.\<close>

type_synonym environ = "string \<Rightarrow> string option"

section \<open>ApiKeyManager\<close>

definition REQUIRED_KEYS :: "string list" where
  "REQUIRED_KEYS = [''GROQ_API_KEY'', ''GOOGLE_API_KEY'', ''OPENAI_API_KEY'']"

record ApiKeyManager =
  api_keys :: "(string \<times> pyval) list"

text \<open>
  Lines 25 to 48: the combined secret.  \<open>loads\<close> is \<open>json.loads\<close>, which returns the
  parsed value or raises.  The result is the log written and the initial
  \<open>self.api_keys\<close>.
\<close>

definition load_combined ::
  "(string \<Rightarrow> py_exc + pyval) \<Rightarrow> environ \<Rightarrow> log_entry list \<times> (string \<times> pyval) list" where
  "load_combined loads env =
     (case env ''API_KEYS'' of
        None \<Rightarrow> ([], [])
      | Some raw \<Rightarrow>
          if raw = [] then ([], [])
          else (case loads raw of
                  Inl e \<Rightarrow> ([log_warning ''Failed to parse API_KEYS as JSON'' [(''error'', StrOf e)]], [])
                | Inr (PDict d) \<Rightarrow> ([log_info ''Loaded API_KEYS from ECS secret'' []], d)
                | Inr _ \<Rightarrow>
                    ([log_warning ''Failed to parse API_KEYS as JSON''
                        [(''error'', StrOf (ValueError ''API_KEYS is not a valid JSON object''))]], [])))"

text \<open>
  Lines 56 to 61: the fallback loop, one step per required key.  The state is the
  log and \<open>self.api_keys\<close>; \<open>self.api_keys[key] = env_val\<close> replaces the value in
  place or appends the key.
\<close>

definition fallback_step ::
  "environ \<Rightarrow> string \<Rightarrow> log_entry list \<times> (string \<times> pyval) list
     \<Rightarrow> log_entry list \<times> (string \<times> pyval) list" where
  "fallback_step env key st =
     (if \<not> truthy (dict_get (snd st) key) then
        (case env key of
           None \<Rightarrow> st
         | Some env_val \<Rightarrow>
             if env_val \<noteq> [] then
               (fst st @ [log_info (''Loaded '' @ key @ '' from individual env var'') []],
                AList.update key (PStr env_val) (snd st))
             else st)
      else st)"

definition fallback ::
  "environ \<Rightarrow> log_entry list \<times> (string \<times> pyval) list
     \<Rightarrow> log_entry list \<times> (string \<times> pyval) list" where
  "fallback env st = fold (fallback_step env) REQUIRED_KEYS st"

text \<open>Line 64: the required keys whose value is absent or falsy.\<close>

definition missing_keys :: "(string \<times> pyval) list \<Rightarrow> string list" where
  "missing_keys d = filter (\<lambda>k. \<not> truthy (dict_get d k)) REQUIRED_KEYS"

text \<open>
  Line 71: \<open>v[:6] + "..."\<close>.  Only a \<open>str\<close> can be sliced and then concatenated with
  a \<open>str\<close>; every other value raises.  The comprehension visits the items in
  order and stops at the first value that raises; the keys of a dict are distinct,
  so the masked dict has one item per item visited.
\<close>

definition mask_value :: "pyval \<Rightarrow> py_exc + pyval" where
  "mask_value v = (case v of PStr s \<Rightarrow> Inr (PStr (take 6 s @ ''...'')) | _ \<Rightarrow> Inl TypeError)"

fun mask_items :: "(string \<times> pyval) list \<Rightarrow> py_exc + (string \<times> pyval) list" where
  "mask_items [] = Inr []"
| "mask_items ((k, v) # kvs) =
     (case mask_value v of
        Inl e \<Rightarrow> Inl e
      | Inr m \<Rightarrow> (case mask_items kvs of Inl e \<Rightarrow> Inl e | Inr ms \<Rightarrow> Inr ((k, m) # ms)))"

text \<open>\<open>ApiKeyManager.__init__\<close>: the log written, and the manager or the exception raised.\<close>

definition ApiKeyManager_init ::
  "(string \<Rightarrow> py_exc + pyval) \<Rightarrow> environ \<Rightarrow> log_entry list \<times> (py_exc + ApiKeyManager)" where
  "ApiKeyManager_init loads env =
     (let st = fallback env (load_combined loads env);
          lg = fst st;
          keys = snd st;
          missing = missing_keys keys
      in if missing \<noteq> [] then
           (lg @ [log_error ''Missing required API keys''
                    [(''missing_keys'', Val (PList (map PStr missing)))]],
            Inl (DocumentPortalException ''Missing API keys'' None))
         else
           (case mask_items keys of
              Inl e \<Rightarrow> (lg, Inl e)
            | Inr ms \<Rightarrow>
                (lg @ [log_info ''API keys loaded'' [(''keys'', Val (PDict ms))]],
                 Inr \<lparr>api_keys = keys\<rparr>)))"

text \<open>\<open>ApiKeyManager.get\<close>.\<close>

definition get :: "ApiKeyManager \<Rightarrow> string \<Rightarrow> py_exc + pyval" where
  "get mgr key =
     (let val = dict_get (api_keys mgr) key
      in if \<not> truthy val then Inl (KeyError (''API key for '' @ key @ '' is missing''))
         else Inr val)"

section \<open>ModelLoader\<close>

text \<open>
  The operations of Python that \<open>ModelLoader\<close> applies to the configuration, which
  \<open>load_config\<close> returns as whatever the YAML file holds.  \<open>obj[key]\<close> with a \<open>str\<close>
  key: a dict yields the value or raises \<open>KeyError\<close>; nothing else can be indexed by
  a \<open>str\<close>.
\<close>

definition py_getitem :: "pyval \<Rightarrow> string \<Rightarrow> py_exc + pyval" where
  "py_getitem obj key =
     (case obj of
        PDict d \<Rightarrow> (case map_of d key of None \<Rightarrow> Inl (KeyError key) | Some v \<Rightarrow> Inr v)
      | _ \<Rightarrow> Inl TypeError)"

text \<open>\<open>sub in s\<close> on two \<open>str\<close>: \<open>sub\<close> occurs in \<open>s\<close> as a contiguous piece.\<close>

fun starts_with :: "string \<Rightarrow> string \<Rightarrow> bool" where
  "starts_with [] s = True"
| "starts_with (c # cs) [] = False"
| "starts_with (c # cs) (d # ds) = (c = d \<and> starts_with cs ds)"

fun str_contains :: "string \<Rightarrow> string \<Rightarrow> bool" where
  "str_contains sub [] = (sub = [])"
| "str_contains sub (c # cs) = (starts_with sub (c # cs) \<or> str_contains sub cs)"

text \<open>
  \<open>key in obj\<close> with a \<open>str\<close> key: key membership for a dict, substring test for a
  \<open>str\<close>, element test for a list; the other values are not iterable.
\<close>

definition py_contains :: "string \<Rightarrow> pyval \<Rightarrow> py_exc + bool" where
  "py_contains key obj =
     (case obj of
        PDict d \<Rightarrow> Inr (key \<in> set (map fst d))
      | PStr s \<Rightarrow> Inr (str_contains key s)
      | PList xs \<Rightarrow> Inr (PStr key \<in> set xs)
      | _ \<Rightarrow> Inl TypeError)"

text \<open>\<open>obj.get(key, default)\<close>: only a dict has the method.\<close>

definition py_get :: "pyval \<Rightarrow> string \<Rightarrow> pyval \<Rightarrow> py_exc + pyval" where
  "py_get obj key dflt =
     (case obj of
        PDict d \<Rightarrow> Inr (case map_of d key of None \<Rightarrow> dflt | Some v \<Rightarrow> v)
      | _ \<Rightarrow> Inl AttributeError)"

text \<open>
  \<open>str(v)\<close> inside an f-string: a \<open>str\<close> is itself; for every other value it is the
  builtin \<open>repr\<close>, which is the parameter \<open>rp\<close>.
\<close>

definition py_str :: "(pyval \<Rightarrow> string) \<Rightarrow> pyval \<Rightarrow> string" where
  "py_str rp v = (case v of PStr s \<Rightarrow> s | _ \<Rightarrow> rp v)"

text \<open>
  The factories of the provider SDKs, with their keyword arguments in the order of
  the source: \<open>GoogleGenerativeAIEmbeddings(model, google_api_key)\<close>,
  \<open>ChatGoogleGenerativeAI(model, google_api_key, temperature, max_output_tokens)\<close>,
  \<open>ChatGroq(model, api_key, temperature)\<close> and
  \<open>ChatOpenAI(model, api_key, temperature, max_tokens)\<close>.  The SDKs are the
  parameter \<open>sdk\<close>: a call returns a client handle or raises, and what an SDK
  raises is kept apart from the module's own exceptions as \<open>SdkError\<close>.
\<close>

datatype sdk_call =
    GoogleGenerativeAIEmbeddings pyval pyval
  | ChatGoogleGenerativeAI pyval pyval pyval pyval
  | ChatGroq pyval pyval pyval
  | ChatOpenAI pyval pyval pyval pyval

definition call_sdk :: "(sdk_call \<Rightarrow> string + 'c) \<Rightarrow> sdk_call \<Rightarrow> py_exc + 'c" where
  "call_sdk sdk c = (case sdk c of Inl x \<Rightarrow> Inl (SdkError x) | Inr h \<Rightarrow> Inr h)"

record ModelLoader =
  api_key_mgr :: ApiKeyManager
  config :: pyval

text \<open>Lines 104 to 107: the body of the \<open>try\<close> of \<open>load_embeddings\<close>.\<close>

definition load_embeddings_try ::
  "(sdk_call \<Rightarrow> string + 'c) \<Rightarrow> ModelLoader \<Rightarrow> log_entry list \<times> (py_exc + 'c)" where
  "load_embeddings_try sdk self =
     (case py_getitem (config self) ''embedding_model'' of
        Inl e \<Rightarrow> ([], Inl e)
      | Inr em \<Rightarrow>
          (case py_getitem em ''model_name'' of
             Inl e \<Rightarrow> ([], Inl e)
           | Inr model_name \<Rightarrow>
               (let lg = [log_info ''Loading embedding model'' [(''model'', Val model_name)]]
                in case get (api_key_mgr self) ''GOOGLE_API_KEY'' of
                     Inl e \<Rightarrow> (lg, Inl e)
                   | Inr k \<Rightarrow> (lg, call_sdk sdk (GoogleGenerativeAIEmbeddings model_name k)))))"

text \<open>
  \<open>ModelLoader.load_embeddings\<close>: the handler of \<open>except Exception as e\<close> logs
  \<open>str(e)\<close> and raises the application error while \<open>e\<close> is being handled.
\<close>

definition load_embeddings ::
  "(sdk_call \<Rightarrow> string + 'c) \<Rightarrow> ModelLoader \<Rightarrow> log_entry list \<times> (py_exc + 'c)" where
  "load_embeddings sdk self =
     (case load_embeddings_try sdk self of
        (lg, Inl e) \<Rightarrow>
          (lg @ [log_error ''Error loading embedding model'' [(''error'', StrOf e)]],
           Inl (DocumentPortalException ''Failed to load embedding model'' (Some e)))
      | (lg, Inr h) \<Rightarrow> (lg, Inr h))"

text \<open>Line 117: \<open>os.getenv("LLM_PROVIDER", "openai")\<close>.\<close>

definition provider_key_of :: "environ \<Rightarrow> string" where
  "provider_key_of env = (case env ''LLM_PROVIDER'' of None \<Rightarrow> ''openai'' | Some v \<Rightarrow> v)"

text \<open>Lines 131 to 156: the dispatch on the provider tag.\<close>

definition dispatch ::
  "(sdk_call \<Rightarrow> string + 'c) \<Rightarrow> (pyval \<Rightarrow> string) \<Rightarrow> ModelLoader
     \<Rightarrow> pyval \<Rightarrow> pyval \<Rightarrow> pyval \<Rightarrow> pyval \<Rightarrow> log_entry list \<times> (py_exc + 'c)" where
  "dispatch sdk rp self provider model_name temperature max_tokens =
     (if provider = PStr ''google'' then
        (case get (api_key_mgr self) ''GOOGLE_API_KEY'' of
           Inl e \<Rightarrow> ([], Inl e)
         | Inr k \<Rightarrow> ([], call_sdk sdk (ChatGoogleGenerativeAI model_name k temperature max_tokens)))
      else if provider = PStr ''groq'' then
        (case get (api_key_mgr self) ''GROQ_API_KEY'' of
           Inl e \<Rightarrow> ([], Inl e)
         | Inr k \<Rightarrow> ([], call_sdk sdk (ChatGroq model_name k temperature)))
      else if provider = PStr ''openai'' then
        (case get (api_key_mgr self) ''OPENAI_API_KEY'' of
           Inl e \<Rightarrow> ([], Inl e)
         | Inr k \<Rightarrow> ([], call_sdk sdk (ChatOpenAI model_name k temperature max_tokens)))
      else
        ([log_error ''Unsupported LLM provider'' [(''provider'', Val provider)]],
         Inl (ValueError (''Unsupported LLM provider: '' @ py_str rp provider))))"

text \<open>Lines 123 to 129: the four reads of the selected entry, then the dispatch.\<close>

definition load_entry ::
  "(sdk_call \<Rightarrow> string + 'c) \<Rightarrow> (pyval \<Rightarrow> string) \<Rightarrow> ModelLoader
     \<Rightarrow> pyval \<Rightarrow> log_entry list \<times> (py_exc + 'c)" where
  "load_entry sdk rp self llm_config =
     (case py_get llm_config ''provider'' PNone of
        Inl e \<Rightarrow> ([], Inl e)
      | Inr provider \<Rightarrow>
     (case py_get llm_config ''model_name'' PNone of
        Inl e \<Rightarrow> ([], Inl e)
      | Inr model_name \<Rightarrow>
     (case py_get llm_config ''temperature'' (PFloat (2 / 10)) of
        Inl e \<Rightarrow> ([], Inl e)
      | Inr temperature \<Rightarrow>
     (case py_get llm_config ''max_output_tokens'' (PInt 2048) of
        Inl e \<Rightarrow> ([], Inl e)
      | Inr max_tokens \<Rightarrow>
          (let lg = [log_info ''Loading LLM'' [(''provider'', Val provider), (''model'', Val model_name)]];
               r = dispatch sdk rp self provider model_name temperature max_tokens
           in (lg @ fst r, snd r))))))"

text \<open>\<open>ModelLoader.load_llm\<close>.\<close>

definition load_llm ::
  "(sdk_call \<Rightarrow> string + 'c) \<Rightarrow> (pyval \<Rightarrow> string) \<Rightarrow> environ \<Rightarrow> ModelLoader
     \<Rightarrow> log_entry list \<times> (py_exc + 'c)" where
  "load_llm sdk rp env self =
     (case py_getitem (config self) ''llm'' of
        Inl e \<Rightarrow> ([], Inl e)
      | Inr llm_block \<Rightarrow>
          (let provider_key = provider_key_of env
           in case py_contains provider_key llm_block of
                Inl e \<Rightarrow> ([], Inl e)
              | Inr False \<Rightarrow>
                  ([log_error ''LLM provider not found in config''
                      [(''provider'', Val (PStr provider_key))]],
                   Inl (ValueError (''LLM provider '' @ [CHR 0x27] @ provider_key @ [CHR 0x27]
                                     @ '' not found in config'')))
              | Inr True \<Rightarrow>
                  (case py_getitem llm_block provider_key of
                     Inl e \<Rightarrow> ([], Inl e)
                   | Inr llm_config \<Rightarrow> load_entry sdk rp self llm_config)))"

section \<open>Collaborators for the worked examples\<close>

text \<open>
  A \<open>json.loads\<close> known on finitely many texts and raising on every other text, and
  an SDK that builds the listed calls and raises on every other call.
\<close>

definition loads_table :: "(string \<times> pyval) list \<Rightarrow> string \<Rightarrow> py_exc + pyval" where
  "loads_table tab raw = (case map_of tab raw of None \<Rightarrow> Inl (JSONDecodeError raw) | Some v \<Rightarrow> Inr v)"

definition sdk_table :: "(sdk_call \<times> 'c) list \<Rightarrow> sdk_call \<Rightarrow> string + 'c" where
  "sdk_table tab c = (case map_of tab c of None \<Rightarrow> Inl ''unavailable'' | Some h \<Rightarrow> Inr h)"

text \<open>
  Texts of the combined secret used in the examples, and what \<open>json.loads\<close> returns
  on them.  The text \<open>blob_broken\<close> is not in the table: it is not valid JSON.
\<close>

definition blob_subset :: string where
  \<open>blob_subset = ''{"GROQ_API_KEY": "gsk_from_blob"}''\<close>

definition blob_extra :: string where
  \<open>blob_extra = ''{"GROQ_API_KEY": "gsk_from_blob", "region": "eu-west-1"}''\<close>

definition blob_falsy :: string where
  \<open>blob_falsy = ''{"GROQ_API_KEY": "", "GOOGLE_API_KEY": null}''\<close>

definition blob_list :: string where
  \<open>blob_list = ''["gsk_from_blob"]''\<close>

definition blob_broken :: string where
  \<open>blob_broken = ''{"GROQ_API_KEY": ''\<close>

definition json_examples :: "(string \<times> pyval) list" where
  "json_examples =
     [(blob_subset, PDict [(''GROQ_API_KEY'', PStr ''gsk_from_blob'')]),
      (blob_extra, PDict [(''GROQ_API_KEY'', PStr ''gsk_from_blob''), (''region'', PStr ''eu-west-1'')]),
      (blob_falsy, PDict [(''GROQ_API_KEY'', PStr []), (''GOOGLE_API_KEY'', PNone)]),
      (blob_list, PList [PStr ''gsk_from_blob''])]"

text \<open>
  A constructed resolver and a configuration for the examples.  The \<open>openai\<close> entry
  is the one of the specification: provider \<open>openai\<close>, model \<open>gpt-x\<close>, temperature
  \<open>0.1\<close> and no \<open>max_output_tokens\<close>.  The entry \<open>legacy\<close> carries a provider tag
  that \<open>load_llm\<close> does not know.
\<close>

definition example_mgr :: ApiKeyManager where
  "example_mgr = \<lparr>api_keys = [(''GROQ_API_KEY'', PStr ''gsk_0123456789''),
                               (''GOOGLE_API_KEY'', PStr ''AIza''),
                               (''OPENAI_API_KEY'', PStr ''sk-ABCDEFGH'')]\<rparr>"

definition example_config :: pyval where
  "example_config =
     PDict [(''embedding_model'', PDict [(''model_name'', PStr ''models/text-embedding-004'')]),
            (''llm'', PDict
               [(''openai'', PDict [(''provider'', PStr ''openai''), (''model_name'', PStr ''gpt-x''),
                                    (''temperature'', PFloat (1 / 10))]),
                (''groq'', PDict [(''provider'', PStr ''groq''), (''model_name'', PStr ''llama''),
                                  (''temperature'', PInt 0), (''max_output_tokens'', PInt 512)]),
                (''legacy'', PDict [(''provider'', PStr ''anthropic''), (''model_name'', PStr ''m'')])])]"

definition example_loader :: ModelLoader where
  "example_loader = \<lparr>api_key_mgr = example_mgr, config = example_config\<rparr>"

text \<open>An SDK that knows the two calls of the examples; the handle is a text.\<close>

definition example_sdk :: "sdk_call \<Rightarrow> string + string" where
  "example_sdk =
     sdk_table
       [(GoogleGenerativeAIEmbeddings (PStr ''models/text-embedding-004'') (PStr ''AIza''),
         ''embeddings-client''),
        (ChatOpenAI (PStr ''gpt-x'') (PStr ''sk-ABCDEFGH'') (PFloat (1 / 10)) (PInt 2048),
         ''openai-chat-client'')]"

text \<open>
  A \<open>repr\<close> for the examples, exact on \<open>None\<close>, \<open>True\<close> and \<open>False\<close>; the examples
  apply it to no other value.
\<close>

definition example_repr :: "pyval \<Rightarrow> string" where
  "example_repr v =
     (if v = PNone then ''None'' else if v = PBool True then ''True''
      else if v = PBool False then ''False'' else ''...'')"

section \<open>Lemmas on the credential resolution\<close>

lemma mask_items_Inr:
  "mask_items kvs = Inr ms \<Longrightarrow>
   list_all2 (\<lambda>kv km. fst km = fst kv \<and> (\<exists>s. snd kv = PStr s \<and> snd km = PStr (take 6 s @ ''...''))) kvs ms"
proof (induction kvs arbitrary: ms)
  case Nil
  then show ?case by simp
next
  case (Cons kv kvs)
  obtain k v where kv: "kv = (k, v)" by (cases kv)
  from Cons.prems kv obtain m ms' where m: "mask_value v = Inr m" and r: "mask_items kvs = Inr ms'" and ms: "ms = (k, m) # ms'"
    by (auto split: sum.splits)
  from m obtain s where "v = PStr s" "m = PStr (take 6 s @ ''...'')"
    by (auto simp: mask_value_def split: pyval.splits)
  with Cons.IH[OF r] kv ms show ?case by simp
qed

lemma init_success:
  assumes "ApiKeyManager_init loads env = (lg, Inr mgr)"
  shows "\<exists>lg0 ms. fallback env (load_combined loads env) = (lg0, api_keys mgr) \<and> missing_keys (api_keys mgr) = []
     \<and> mask_items (api_keys mgr) = Inr ms \<and> lg = lg0 @ [log_info ''API keys loaded'' [(''keys'', Val (PDict ms))]]"
  using assms unfolding ApiKeyManager_init_def Let_def
  by (cases "fallback env (load_combined loads env)") (auto split: if_splits sum.splits)



lemma fallback_step_map_of:
  "map_of (snd (fallback_step env key st)) k =
     (if k = key \<and> \<not> truthy (dict_get (snd st) k) \<and> env k \<noteq> None \<and> env k \<noteq> Some []
      then map_option PStr (env k) else map_of (snd st) k)"
  by (auto simp: fallback_step_def AList.update_conv' split: option.splits)

lemma fold_fallback_map_of:
  "map_of (snd (fold (fallback_step env) ks st)) k =
     (if k \<in> set ks \<and> \<not> truthy (dict_get (snd st) k) \<and> env k \<noteq> None \<and> env k \<noteq> Some []
      then map_option PStr (env k) else map_of (snd st) k)"
proof (induction ks arbitrary: st)
  case Nil
  then show ?case by simp
next
  case (Cons key ks)
  have dg: "dict_get (snd (fallback_step env key st)) k =
      (case map_of (snd (fallback_step env key st)) k of None \<Rightarrow> PNone | Some v \<Rightarrow> v)"
    by (simp add: dict_get_def)
  show ?case
    unfolding fold_simps Cons.IH dg fallback_step_map_of
    by (auto simp: dict_get_def split: option.splits)
qed

lemma fallback_map_of:
  "map_of (snd (fallback env st)) k =
     (if k \<in> set REQUIRED_KEYS \<and> \<not> truthy (dict_get (snd st) k) \<and> env k \<noteq> None \<and> env k \<noteq> Some []
      then map_option PStr (env k) else map_of (snd st) k)"
  unfolding fallback_def by (rule fold_fallback_map_of)

lemma fallback_step_log:
  "fallback_step env key (lg, d) =
     (lg @ fst (fallback_step env key ([], d)), snd (fallback_step env key ([], d)))"
  by (simp add: fallback_step_def split: option.splits)

lemma fold_fallback_log:
  "fold (fallback_step env) ks (lg, d) =
     (lg @ fst (fold (fallback_step env) ks ([], d)), snd (fold (fallback_step env) ks ([], d)))"
proof (induction ks arbitrary: lg d)
  case Nil
  then show ?case by simp
next
  case (Cons key ks)
  obtain l1 d1 where s1: "fallback_step env key ([], d) = (l1, d1)"
    by (cases "fallback_step env key ([], d)")
  have a: "fallback_step env key (lg, d) = (lg @ l1, d1)"
    using fallback_step_log[of env key lg d] s1 by simp
  show ?case
    unfolding fold_simps a s1
    using Cons.IH[of "lg @ l1" d1] Cons.IH[of l1 d1] by simp
qed

lemma set_alist_update: "set (AList.update k v al) \<subseteq> insert (k, v) (set al)"
  by (induction al) auto

lemma fallback_values_str:
  assumes "\<forall>kv \<in> set (snd st). \<exists>s. snd kv = PStr s"
  shows "\<forall>kv \<in> set (snd (fold (fallback_step env) ks st)). \<exists>s. snd kv = PStr s"
  using assms
proof (induction ks arbitrary: st)
  case Nil
  then show ?case by simp
next
  case (Cons key ks)
  have "\<forall>kv \<in> set (snd (fallback_step env key st)). \<exists>s. snd kv = PStr s"
  proof
    fix kv assume "kv \<in> set (snd (fallback_step env key st))"
    then have "kv \<in> set (snd st) \<or> (\<exists>s. kv = (key, PStr s))"
      using set_alist_update[of key _ "snd st"]
      by (auto simp: fallback_step_def split: option.splits if_splits)
    with Cons.prems show "\<exists>s. snd kv = PStr s" by auto
  qed
  from Cons.IH[OF this] show ?case by simp
qed

lemma mask_items_total:
  "(\<forall>kv \<in> set kvs. \<exists>s. snd kv = PStr s) \<Longrightarrow> \<exists>ms. mask_items kvs = Inr ms"
proof (induction kvs)
  case Nil
  then show ?case by simp
next
  case (Cons kv kvs)
  then obtain ms where "mask_items kvs = Inr ms" by auto
  moreover from Cons.prems obtain k s where "kv = (k, PStr s)" by (cases kv) auto
  ultimately show ?case by (simp add: mask_value_def)
qed

lemma mask_items_map_of:
  "mask_items kvs = Inr ms \<Longrightarrow> map_of kvs k = Some v \<Longrightarrow>
     \<exists>s. v = PStr s \<and> map_of ms k = Some (PStr (take 6 s @ ''...''))"
proof (induction kvs arbitrary: ms)
  case Nil
  then show ?case by simp
next
  case (Cons kv kvs)
  obtain k' v' where kv: "kv = (k', v')" by (cases kv)
  from Cons.prems(1) kv obtain m ms' where m: "mask_value v' = Inr m" and r: "mask_items kvs = Inr ms'"
      and ms: "ms = (k', m) # ms'"
    by (auto split: sum.splits)
  from m obtain s' where s': "v' = PStr s'" "m = PStr (take 6 s' @ ''...'')"
    by (auto simp: mask_value_def split: pyval.splits)
  show ?case
  proof (cases "k = k'")
    case True
    with Cons.prems(2) kv s' ms show ?thesis by auto
  next
    case False
    with Cons.prems(2) kv have "map_of kvs k = Some v" by simp
    from Cons.IH[OF r this] False ms show ?thesis by simp
  qed
qed

lemma missing_keys_Nil:
  "missing_keys d = [] \<longleftrightarrow> (\<forall>k \<in> set REQUIRED_KEYS. truthy (dict_get d k))"
  by (auto simp: missing_keys_def filter_empty_conv)

lemma load_combined_dict:
  "env ''API_KEYS'' = Some raw \<Longrightarrow> raw \<noteq> [] \<Longrightarrow> loads raw = Inr (PDict d) \<Longrightarrow>
     load_combined loads env = ([log_info ''Loaded API_KEYS from ECS secret'' []], d)"
  by (simp add: load_combined_def)

lemma fallback_dict_get:
  "dict_get (snd (fallback env st)) k =
     (if k \<in> set REQUIRED_KEYS \<and> \<not> truthy (dict_get (snd st) k) \<and> env k \<noteq> None \<and> env k \<noteq> Some []
      then PStr (the (env k)) else dict_get (snd st) k)"
  by (auto simp: dict_get_def fallback_map_of split: option.splits)

lemma missing_after_fallback:
  "missing_keys (snd (fallback env st)) =
     filter (\<lambda>k. \<not> truthy (dict_get (snd st) k) \<and> (env k = None \<or> env k = Some [])) REQUIRED_KEYS"
  unfolding missing_keys_def
  by (rule filter_cong) (auto simp: fallback_dict_get)

lemma init_missing:
  assumes "missing_keys (snd (fallback env (load_combined loads env))) \<noteq> []"
  shows "ApiKeyManager_init loads env =
     (fst (fallback env (load_combined loads env)) @
        [log_error ''Missing required API keys''
           [(''missing_keys'', Val (PList (map PStr (missing_keys (snd (fallback env (load_combined loads env)))))))]],
      Inl (DocumentPortalException ''Missing API keys'' None))"
  using assms by (simp add: ApiKeyManager_init_def Let_def)

lemma init_ok:
  assumes "fallback env (load_combined loads env) = (lg0, keys)"
    and "missing_keys keys = []" and "mask_items keys = Inr ms"
  shows "ApiKeyManager_init loads env =
           (lg0 @ [log_info ''API keys loaded'' [(''keys'', Val (PDict ms))]], Inr \<lparr>api_keys = keys\<rparr>)"
  using assms by (simp add: ApiKeyManager_init_def Let_def)
lemma init_snd:
  "snd (ApiKeyManager_init loads env) =
     (if missing_keys (snd (fallback env (load_combined loads env))) \<noteq> []
      then Inl (DocumentPortalException ''Missing API keys'' None)
      else (case mask_items (snd (fallback env (load_combined loads env))) of
              Inl e \<Rightarrow> Inl e
            | Inr ms \<Rightarrow> Inr \<lparr>api_keys = snd (fallback env (load_combined loads env))\<rparr>))"
  by (simp add: ApiKeyManager_init_def Let_def split: sum.splits)
lemma fallback_step_env_cong:
  "env key = env' key \<Longrightarrow> fallback_step env key = fallback_step env' key"
  by (rule ext) (simp add: fallback_step_def)

lemma fallback_env_cong:
  assumes "\<forall>k \<in> set REQUIRED_KEYS. env k = env' k"
  shows "fallback env st = fallback env' st"
  unfolding fallback_def
  by (rule fold_cong[OF refl refl], rule fallback_step_env_cong) (simp add: assms)
lemma fallback_snd_log:
  "snd (fallback env (lg, d)) = snd (fallback env ([], d))"
  by (simp add: fallback_def fold_fallback_log[of env REQUIRED_KEYS lg d])

lemmas eval_defs = ApiKeyManager_init_def fallback_def fallback_step_def load_combined_def
  missing_keys_def REQUIRED_KEYS_def dict_get_def mask_value_def log_info_def log_warning_def
  log_error_def loads_table_def get_def Let_def

lemmas blob_defs = json_examples_def blob_subset_def blob_extra_def blob_falsy_def
  blob_list_def blob_broken_def

text \<open>
  A construction from the three individual variables alone, evaluated in full: the
  credential \<open>sk-ABCDEFGH\<close> is logged as \<open>sk-ABC...\<close>.
\<close>

lemma init_individual_example:
  "ApiKeyManager_init (loads_table [])
     (map_of [(''GROQ_API_KEY'', ''gsk_0123456789''), (''GOOGLE_API_KEY'', ''AIza''),
              (''OPENAI_API_KEY'', ''sk-ABCDEFGH'')])
   = ([log_info ''Loaded GROQ_API_KEY from individual env var'' [],
       log_info ''Loaded GOOGLE_API_KEY from individual env var'' [],
       log_info ''Loaded OPENAI_API_KEY from individual env var'' [],
       log_info ''API keys loaded''
         [(''keys'', Val (PDict [(''GROQ_API_KEY'', PStr ''gsk_01...''),
                                 (''GOOGLE_API_KEY'', PStr ''AIza...''),
                                 (''OPENAI_API_KEY'', PStr ''sk-ABC...'')]))]],
      Inr \<lparr>api_keys = [(''GROQ_API_KEY'', PStr ''gsk_0123456789''),
                        (''GOOGLE_API_KEY'', PStr ''AIza''),
                        (''OPENAI_API_KEY'', PStr ''sk-ABCDEFGH'')]\<rparr>)"
  by (simp add: eval_defs)

section \<open>Lemmas on the model loader\<close>

text \<open>
  A resolver that was constructed holds a non-empty \<open>str\<close> under each required
  key, and \<open>get\<close> returns it.
\<close>

lemma init_required_str:
  assumes "ApiKeyManager_init loads env = (lg, Inr mgr)" and "k \<in> set REQUIRED_KEYS"
  shows "\<exists>s. s \<noteq> [] \<and> map_of (api_keys mgr) k = Some (PStr s) \<and> get mgr k = Inr (PStr s)"
proof -
  from init_success[OF assms(1)] obtain ms where
    mk: "missing_keys (api_keys mgr) = []" and m: "mask_items (api_keys mgr) = Inr ms"
    by blast
  from mk assms(2) have t: "truthy (dict_get (api_keys mgr) k)" by (simp add: missing_keys_Nil)
  then obtain v where v: "map_of (api_keys mgr) k = Some v"
    by (auto simp: dict_get_def split: option.splits)
  from mask_items_map_of[OF m v] obtain s where s: "v = PStr s" by blast
  with t v have "s \<noteq> []" by (simp add: dict_get_def)
  with v s show ?thesis by (simp add: get_def dict_get_def)
qed







section \<open>The masked success log\<close>

text \<open>
  Claim C2: the success log is to show, for every credential, its first 6 characters
  followed by \<open>...\<close>, and never the full value.  The comment of line 70 announces
  this masking ("mask keys and show partial values"), and line 71 computes
  \<open>v[:6] + "..."\<close> without looking at the length of \<open>v\<close>.  With \<open>GROQ_API_KEY\<close> set
  to \<open>abcdef...\<close>, \<open>GOOGLE_API_KEY\<close> to \<open>sk-ABCDEFGH\<close> and \<open>OPENAI_API_KEY\<close> to \<open>o\<close>
  the construction succeeds; its success log shows \<open>sk-ABC...\<close> for the second, but
  for the first it shows \<open>abcdef...\<close>, which is the full value, and for the third it
  shows \<open>o...\<close>, the whole credential followed by the dots.
\<close>

theorem masked_log_shows_full_secret:
  "ApiKeyManager_init (loads_table [])
     (map_of [(''GROQ_API_KEY'', ''abcdef...''), (''GOOGLE_API_KEY'', ''sk-ABCDEFGH''),
              (''OPENAI_API_KEY'', ''o'')])
   = ([log_info ''Loaded GROQ_API_KEY from individual env var'' [],
       log_info ''Loaded GOOGLE_API_KEY from individual env var'' [],
       log_info ''Loaded OPENAI_API_KEY from individual env var'' [],
       log_info ''API keys loaded''
         [(''keys'', Val (PDict [(''GROQ_API_KEY'', PStr ''abcdef...''),
                                 (''GOOGLE_API_KEY'', PStr ''sk-ABC...''),
                                 (''OPENAI_API_KEY'', PStr ''o...'')]))]],
      Inr \<lparr>api_keys = [(''GROQ_API_KEY'', PStr ''abcdef...''),
                        (''GOOGLE_API_KEY'', PStr ''sk-ABCDEFGH''),
                        (''OPENAI_API_KEY'', PStr ''o'')]\<rparr>)
   \<and> mask_value (PStr ''abcdef...'') = Inr (PStr ''abcdef...'')
   \<and> mask_value (PStr ''o'') = Inr (PStr (''o'' @ ''...''))"
  by (simp add: eval_defs mask_value_def)

section \<open>The invariant of a constructed resolver\<close>

text \<open>
  Claim C8: whenever the construction succeeds, each of the three required
  key-names maps to a non-empty \<open>str\<close> in the credential set, and \<open>get\<close> returns
  that value for it instead of raising its \<open>KeyError\<close>.
\<close>

theorem required_keys_resolved:
  assumes "ApiKeyManager_init loads env = (lg, Inr mgr)"
  shows "\<forall>k \<in> set REQUIRED_KEYS.
           \<exists>s. s \<noteq> [] \<and> map_of (api_keys mgr) k = Some (PStr s) \<and> get mgr k = Inr (PStr s)"
proof
  fix k assume k: "k \<in> set REQUIRED_KEYS"
  from init_success[OF assms] obtain ms where
    mk: "missing_keys (api_keys mgr) = []" and m: "mask_items (api_keys mgr) = Inr ms"
    by blast
  from mk k have t: "truthy (dict_get (api_keys mgr) k)" by (simp add: missing_keys_Nil)
  then obtain v where v: "map_of (api_keys mgr) k = Some v"
    by (auto simp: dict_get_def split: option.splits)
  from mask_items_map_of[OF m v] obtain s where s: "v = PStr s" by blast
  with t v have "s \<noteq> []" by (simp add: dict_get_def)
  with v s show "\<exists>s. s \<noteq> [] \<and> map_of (api_keys mgr) k = Some (PStr s) \<and> get mgr k = Inr (PStr s)"
    by (simp add: get_def dict_get_def)
qed

theorem required_keys_resolved_witness:
  "get \<lparr>api_keys = [(''GROQ_API_KEY'', PStr ''gsk_0123456789''), (''GOOGLE_API_KEY'', PStr ''AIza''),
                    (''OPENAI_API_KEY'', PStr ''sk-ABCDEFGH'')]\<rparr> ''OPENAI_API_KEY''
     = Inr (PStr ''sk-ABCDEFGH'')
   \<and> get \<lparr>api_keys = [(''GROQ_API_KEY'', PStr ''gsk_0123456789''), (''GOOGLE_API_KEY'', PStr ''AIza''),
                    (''OPENAI_API_KEY'', PStr ''sk-ABCDEFGH'')]\<rparr> ''GROQ_API_KEY''
     = Inr (PStr ''gsk_0123456789'')"
  using required_keys_resolved[OF init_individual_example] by (simp add: REQUIRED_KEYS_def)

section \<open>Missing credentials\<close>

text \<open>
  Claim C1 as stated fails on the message of the error: with only \<open>GOOGLE_API_KEY\<close>
  set, the construction raises \<open>DocumentPortalException("Missing API keys", sys)\<close>,
  whose message names neither \<open>GROQ_API_KEY\<close> nor \<open>OPENAI_API_KEY\<close>; the two names
  are in the \<open>missing_keys\<close> field of the error log entry written just before.
\<close>

theorem missing_message_counterexample:
  "ApiKeyManager_init (loads_table []) (map_of [(''GOOGLE_API_KEY'', ''AIza'')])
   = ([log_info ''Loaded GOOGLE_API_KEY from individual env var'' [],
       log_error ''Missing required API keys''
         [(''missing_keys'', Val (PList [PStr ''GROQ_API_KEY'', PStr ''OPENAI_API_KEY'']))]],
      Inl (DocumentPortalException ''Missing API keys'' None))
   \<and> \<not> str_contains ''GROQ_API_KEY'' ''Missing API keys''
   \<and> \<not> str_contains ''OPENAI_API_KEY'' ''Missing API keys''"
  by (simp add: eval_defs)

text \<open>
  Claim C1, amended: if, after the combined secret and the individual variables have
  been read, some required key-name has no truthy value from the combined secret
  and its individual variable is unset or empty, the construction raises the
  \<open>DocumentPortalException\<close> built from the fixed message \<open>Missing API keys\<close>, and
  the last log entry before it is the error entry whose \<open>missing_keys\<close> field lists
  exactly those key-names, in the order of \<open>REQUIRED_KEYS\<close>.
\<close>

theorem missing_credentials_error:
  assumes "\<exists>k \<in> set REQUIRED_KEYS.
             \<not> truthy (dict_get (snd (load_combined loads env)) k) \<and> (env k = None \<or> env k = Some [])"
  shows "\<exists>lg0. ApiKeyManager_init loads env =
           (lg0 @ [log_error ''Missing required API keys''
                     [(''missing_keys'', Val (PList (map PStr
                         (filter (\<lambda>k. \<not> truthy (dict_get (snd (load_combined loads env)) k)
                                        \<and> (env k = None \<or> env k = Some []))
                            REQUIRED_KEYS))))]],
            Inl (DocumentPortalException ''Missing API keys'' None))"
proof -
  from assms have "missing_keys (snd (fallback env (load_combined loads env))) \<noteq> []"
    unfolding missing_after_fallback by (auto simp: filter_empty_conv)
  from init_missing[OF this] show ?thesis
    unfolding missing_after_fallback by blast
qed

theorem missing_credentials_error_witness:
  "\<exists>lg0. ApiKeyManager_init (loads_table [])
            (map_of [(''GROQ_API_KEY'', ''gsk_0123456789''), (''OPENAI_API_KEY'', [])]) =
           (lg0 @ [log_error ''Missing required API keys''
                     [(''missing_keys'', Val (PList [PStr ''GOOGLE_API_KEY'', PStr ''OPENAI_API_KEY'']))]],
            Inl (DocumentPortalException ''Missing API keys'' None))"
proof -
  have h: "\<exists>k \<in> set REQUIRED_KEYS.
             \<not> truthy (dict_get (snd (load_combined (loads_table [])
                  (map_of [(''GROQ_API_KEY'', ''gsk_0123456789''), (''OPENAI_API_KEY'', [])]))) k)
             \<and> (map_of [(''GROQ_API_KEY'', ''gsk_0123456789''), (''OPENAI_API_KEY'', [])] k = None
                \<or> map_of [(''GROQ_API_KEY'', ''gsk_0123456789''), (''OPENAI_API_KEY'', [])] k = Some [])"
    by (simp add: REQUIRED_KEYS_def load_combined_def dict_get_def)
  from missing_credentials_error[OF h] show ?thesis
    by (simp add: REQUIRED_KEYS_def load_combined_def dict_get_def)
qed

section \<open>Combined secret and individual variables together\<close>

text \<open>
  Claim C4: if \<open>API_KEYS\<close> holds a JSON object whose values are strings, non-empty
  for the required key-names it contains, and every required key-name it lacks is
  set as a non-empty individual variable, then the construction succeeds and the
  credential set is the union of the two sources, the value of the combined secret
  winning wherever it has the key.  A combined secret holding a proper subset of the
  three required key-names and nothing else is the case of the claim.
\<close>

theorem blob_and_individual_union:
  assumes "env ''API_KEYS'' = Some raw" and "raw \<noteq> []" and "loads raw = Inr (PDict d)"
    and "\<forall>kv \<in> set d. \<exists>s. snd kv = PStr s \<and> (fst kv \<in> set REQUIRED_KEYS \<longrightarrow> s \<noteq> [])"
    and "\<forall>k \<in> set REQUIRED_KEYS. map_of d k = None \<longrightarrow> (\<exists>s. env k = Some s \<and> s \<noteq> [])"
  shows "\<exists>lg mgr. ApiKeyManager_init loads env = (lg, Inr mgr)
           \<and> map_of (api_keys mgr) =
               (\<lambda>k. if k \<in> set REQUIRED_KEYS then map_option PStr (env k) else None) ++ map_of d"
proof -
  have lc: "load_combined loads env = ([log_info ''Loaded API_KEYS from ECS secret'' []], d)"
    using assms(1-3) by (rule load_combined_dict)
  obtain lg0 keys where f: "fallback env (load_combined loads env) = (lg0, keys)"
    by (cases "fallback env (load_combined loads env)")
  have keys: "keys = snd (fallback env (load_combined loads env))" using f by simp
  have blob: "truthy v \<and> (\<exists>s. v = PStr s)" if "map_of d k = Some v" "k \<in> set REQUIRED_KEYS" for k v
  proof -
    from that(1) have "(k, v) \<in> set d" by (rule map_of_SomeD)
    with assms(4) that(2) show ?thesis by fastforce
  qed
  have m: "map_of keys k =
      ((\<lambda>k. if k \<in> set REQUIRED_KEYS then map_option PStr (env k) else None) ++ map_of d) k" for k
  proof (cases "map_of d k")
    case None
    with assms(5) show ?thesis
      unfolding keys fallback_map_of lc by (auto simp: map_add_def dict_get_def)
  next
    case (Some v)
    with blob[of k v] show ?thesis
      unfolding keys fallback_map_of lc by (auto simp: map_add_def dict_get_def)
  qed
  have "truthy (dict_get keys k)" if "k \<in> set REQUIRED_KEYS" for k
  proof (cases "map_of d k")
    case None
    with assms(5) that obtain s where "env k = Some s" "s \<noteq> []" by blast
    with None that show ?thesis by (simp add: dict_get_def m map_add_def)
  next
    case (Some v)
    with blob[of k v] that show ?thesis by (auto simp: dict_get_def m map_add_def)
  qed
  then have mk: "missing_keys keys = []" by (simp add: missing_keys_Nil)
  have "\<forall>kv \<in> set (snd (load_combined loads env)). \<exists>s. snd kv = PStr s"
    using assms(4) by (auto simp: lc)
  from fallback_values_str[OF this, of env REQUIRED_KEYS]
  have "\<forall>kv \<in> set keys. \<exists>s. snd kv = PStr s" by (simp add: keys fallback_def)
  from mask_items_total[OF this] obtain ms where ms: "mask_items keys = Inr ms" by blast
  from init_ok[OF f mk ms] m show ?thesis by auto
qed

theorem blob_and_individual_union_witness:
  "(\<exists>lg mgr. ApiKeyManager_init (loads_table json_examples)
       (map_of [(''API_KEYS'', blob_subset), (''GROQ_API_KEY'', ''gsk_from_env''),
                (''GOOGLE_API_KEY'', ''AIza''), (''OPENAI_API_KEY'', ''sk-ABCDEFGH'')]) = (lg, Inr mgr)
     \<and> map_of (api_keys mgr) =
         (\<lambda>k. if k \<in> set REQUIRED_KEYS
               then map_option PStr
                      (map_of [(''API_KEYS'', blob_subset), (''GROQ_API_KEY'', ''gsk_from_env''),
                               (''GOOGLE_API_KEY'', ''AIza''), (''OPENAI_API_KEY'', ''sk-ABCDEFGH'')] k)
               else None) ++ map_of [(''GROQ_API_KEY'', PStr ''gsk_from_blob'')])
   \<and> snd (ApiKeyManager_init (loads_table json_examples)
       (map_of [(''API_KEYS'', blob_subset), (''GROQ_API_KEY'', ''gsk_from_env''),
                (''GOOGLE_API_KEY'', ''AIza''), (''OPENAI_API_KEY'', ''sk-ABCDEFGH'')]))
       = Inr \<lparr>api_keys = [(''GROQ_API_KEY'', PStr ''gsk_from_blob''),
                           (''GOOGLE_API_KEY'', PStr ''AIza''),
                           (''OPENAI_API_KEY'', PStr ''sk-ABCDEFGH'')]\<rparr>"
proof
  show "\<exists>lg mgr. ApiKeyManager_init (loads_table json_examples)
       (map_of [(''API_KEYS'', blob_subset), (''GROQ_API_KEY'', ''gsk_from_env''),
                (''GOOGLE_API_KEY'', ''AIza''), (''OPENAI_API_KEY'', ''sk-ABCDEFGH'')]) = (lg, Inr mgr)
     \<and> map_of (api_keys mgr) =
         (\<lambda>k. if k \<in> set REQUIRED_KEYS
               then map_option PStr
                      (map_of [(''API_KEYS'', blob_subset), (''GROQ_API_KEY'', ''gsk_from_env''),
                               (''GOOGLE_API_KEY'', ''AIza''), (''OPENAI_API_KEY'', ''sk-ABCDEFGH'')] k)
               else None) ++ map_of [(''GROQ_API_KEY'', PStr ''gsk_from_blob'')]"
  proof (rule blob_and_individual_union[where raw = blob_subset])
    show "map_of [(''API_KEYS'', blob_subset), (''GROQ_API_KEY'', ''gsk_from_env''),
                  (''GOOGLE_API_KEY'', ''AIza''), (''OPENAI_API_KEY'', ''sk-ABCDEFGH'')] ''API_KEYS''
          = Some blob_subset" by simp
    show "blob_subset \<noteq> []" by (simp add: blob_subset_def)
    show "loads_table json_examples blob_subset = Inr (PDict [(''GROQ_API_KEY'', PStr ''gsk_from_blob'')])"
      by (simp add: loads_table_def json_examples_def)
    show "\<forall>kv \<in> set [(''GROQ_API_KEY'', PStr ''gsk_from_blob'')].
            \<exists>s. snd kv = PStr s \<and> (fst kv \<in> set REQUIRED_KEYS \<longrightarrow> s \<noteq> [])" by simp
    show "\<forall>k \<in> set REQUIRED_KEYS. map_of [(''GROQ_API_KEY'', PStr ''gsk_from_blob'')] k = None \<longrightarrow>
            (\<exists>s. map_of [(''API_KEYS'', blob_subset), (''GROQ_API_KEY'', ''gsk_from_env''),
                          (''GOOGLE_API_KEY'', ''AIza''), (''OPENAI_API_KEY'', ''sk-ABCDEFGH'')] k = Some s
                 \<and> s \<noteq> [])"
      by (simp add: REQUIRED_KEYS_def)
  qed
  show "snd (ApiKeyManager_init (loads_table json_examples)
       (map_of [(''API_KEYS'', blob_subset), (''GROQ_API_KEY'', ''gsk_from_env''),
                (''GOOGLE_API_KEY'', ''AIza''), (''OPENAI_API_KEY'', ''sk-ABCDEFGH'')]))
       = Inr \<lparr>api_keys = [(''GROQ_API_KEY'', PStr ''gsk_from_blob''),
                           (''GOOGLE_API_KEY'', PStr ''AIza''),
                           (''OPENAI_API_KEY'', PStr ''sk-ABCDEFGH'')]\<rparr>"
    by (simp add: eval_defs blob_defs)
qed

section \<open>A combined secret that cannot be used\<close>

text \<open>
  Claim C5: when \<open>API_KEYS\<close> is present and \<open>json.loads\<close> raises on it, or returns
  something other than a JSON object, the construction does not fail there: its
  outcome is the outcome of the same construction with \<open>API_KEYS\<close> unset, and it
  succeeds, with exactly the three individual values as the credential set,
  whenever the three required key-names are set to non-empty individual variables.
\<close>

theorem malformed_blob_discarded:
  assumes "env ''API_KEYS'' = Some raw"
    and "(\<exists>e. loads raw = Inl e) \<or> (\<exists>v. loads raw = Inr v \<and> (\<forall>d. v \<noteq> PDict d))"
  shows "snd (ApiKeyManager_init loads env) = snd (ApiKeyManager_init loads (env(''API_KEYS'' := None)))
       \<and> ((\<forall>k \<in> set REQUIRED_KEYS. \<exists>s. env k = Some s \<and> s \<noteq> []) \<longrightarrow>
            (\<exists>lg. ApiKeyManager_init loads env =
               (lg, Inr \<lparr>api_keys = map (\<lambda>k. (k, PStr (the (env k)))) REQUIRED_KEYS\<rparr>)))"
proof -
  have d: "snd (load_combined loads env) = []"
    using assms by (auto simp: load_combined_def split: pyval.splits)
  have d': "snd (load_combined loads (env(''API_KEYS'' := None))) = []"
    by (simp add: load_combined_def)
  have e: "fallback (env(''API_KEYS'' := None)) st = fallback env st" for st
    by (rule fallback_env_cong) (simp add: REQUIRED_KEYS_def)
  obtain lg1 where l1: "load_combined loads env = (lg1, [])"
    using d by (cases "load_combined loads env") auto
  obtain lg2 where l2: "load_combined loads (env(''API_KEYS'' := None)) = (lg2, [])"
    using d' by (cases "load_combined loads (env(''API_KEYS'' := None))") auto
  have k: "snd (fallback env (load_combined loads env)) = snd (fallback env ([], []))"
    unfolding l1 by (rule fallback_snd_log)
  have k': "snd (fallback (env(''API_KEYS'' := None)) (load_combined loads (env(''API_KEYS'' := None))))
            = snd (fallback env ([], []))"
    unfolding l2 e by (rule fallback_snd_log)
  have a: "snd (ApiKeyManager_init loads env) = snd (ApiKeyManager_init loads (env(''API_KEYS'' := None)))"
    unfolding init_snd k k' ..
  have b: "(\<forall>k \<in> set REQUIRED_KEYS. \<exists>s. env k = Some s \<and> s \<noteq> []) \<longrightarrow>
            (\<exists>lg. ApiKeyManager_init loads env =
               (lg, Inr \<lparr>api_keys = map (\<lambda>k. (k, PStr (the (env k)))) REQUIRED_KEYS\<rparr>))"
  proof
    assume h: "\<forall>k \<in> set REQUIRED_KEYS. \<exists>s. env k = Some s \<and> s \<noteq> []"
    then obtain s1 s2 s3 where s:
      "env ''GROQ_API_KEY'' = Some s1" "s1 \<noteq> []"
      "env ''GOOGLE_API_KEY'' = Some s2" "s2 \<noteq> []"
      "env ''OPENAI_API_KEY'' = Some s3" "s3 \<noteq> []"
      by (auto simp: REQUIRED_KEYS_def)
    have ks: "snd (fallback env ([], [])) = map (\<lambda>k. (k, PStr (the (env k)))) REQUIRED_KEYS"
      using s by (simp add: fallback_def fallback_step_def REQUIRED_KEYS_def dict_get_def)
    have "snd (ApiKeyManager_init loads env) =
            Inr \<lparr>api_keys = map (\<lambda>k. (k, PStr (the (env k)))) REQUIRED_KEYS\<rparr>"
      unfolding init_snd k ks using s
      by (simp add: missing_keys_def REQUIRED_KEYS_def dict_get_def mask_value_def)
    then show "\<exists>lg. ApiKeyManager_init loads env =
               (lg, Inr \<lparr>api_keys = map (\<lambda>k. (k, PStr (the (env k)))) REQUIRED_KEYS\<rparr>)"
      by (cases "ApiKeyManager_init loads env") auto
  qed
  from a b show ?thesis by blast
qed

theorem malformed_blob_discarded_witness:
  "(\<exists>lg. ApiKeyManager_init (loads_table json_examples)
       (map_of [(''API_KEYS'', blob_broken), (''GROQ_API_KEY'', ''gsk_from_env''),
                (''GOOGLE_API_KEY'', ''AIza''), (''OPENAI_API_KEY'', ''sk-ABCDEFGH'')])
      = (lg, Inr \<lparr>api_keys = [(''GROQ_API_KEY'', PStr ''gsk_from_env''),
                               (''GOOGLE_API_KEY'', PStr ''AIza''),
                               (''OPENAI_API_KEY'', PStr ''sk-ABCDEFGH'')]\<rparr>))
   \<and> (\<exists>lg. ApiKeyManager_init (loads_table json_examples)
       (map_of [(''API_KEYS'', blob_list), (''GROQ_API_KEY'', ''gsk_from_env''),
                (''GOOGLE_API_KEY'', ''AIza''), (''OPENAI_API_KEY'', ''sk-ABCDEFGH'')])
      = (lg, Inr \<lparr>api_keys = [(''GROQ_API_KEY'', PStr ''gsk_from_env''),
                               (''GOOGLE_API_KEY'', PStr ''AIza''),
                               (''OPENAI_API_KEY'', PStr ''sk-ABCDEFGH'')]\<rparr>))"
proof -
  have a1: "map_of [(''API_KEYS'', blob_broken), (''GROQ_API_KEY'', ''gsk_from_env''),
                    (''GOOGLE_API_KEY'', ''AIza''), (''OPENAI_API_KEY'', ''sk-ABCDEFGH'')] ''API_KEYS''
            = Some blob_broken" by simp
  have a2: "(\<exists>e. loads_table json_examples blob_broken = Inl e)
            \<or> (\<exists>v. loads_table json_examples blob_broken = Inr v \<and> (\<forall>d. v \<noteq> PDict d))"
    by (simp add: loads_table_def blob_defs)
  have b1: "map_of [(''API_KEYS'', blob_list), (''GROQ_API_KEY'', ''gsk_from_env''),
                    (''GOOGLE_API_KEY'', ''AIza''), (''OPENAI_API_KEY'', ''sk-ABCDEFGH'')] ''API_KEYS''
            = Some blob_list" by simp
  have b2: "(\<exists>e. loads_table json_examples blob_list = Inl e)
            \<or> (\<exists>v. loads_table json_examples blob_list = Inr v \<and> (\<forall>d. v \<noteq> PDict d))"
    by (simp add: loads_table_def blob_defs)
  from malformed_blob_discarded[where raw = blob_broken and loads = "loads_table json_examples" and env = "map_of [(''API_KEYS'', blob_broken), (''GROQ_API_KEY'', ''gsk_from_env''),
                    (''GOOGLE_API_KEY'', ''AIza''), (''OPENAI_API_KEY'', ''sk-ABCDEFGH'')]", OF a1 a2]
    malformed_blob_discarded[where raw = blob_list and loads = "loads_table json_examples" and env = "map_of [(''API_KEYS'', blob_list), (''GROQ_API_KEY'', ''gsk_from_env''),
                    (''GOOGLE_API_KEY'', ''AIza''), (''OPENAI_API_KEY'', ''sk-ABCDEFGH'')]", OF b1 b2]
  show ?thesis by (simp add: REQUIRED_KEYS_def)
qed

section \<open>Precedence by truth value\<close>

text \<open>
  Claim C9: precedence of the combined secret is decided by truth value.  Let the
  combined secret be a JSON object in which a required key-name is absent or has a
  falsy value (the empty string, \<open>null\<close>, zero, \<open>false\<close>, an empty list or object).
  If the individual variable of that name is set and non-empty, after the fallback
  loop the credential set holds the individual value under that name, and a
  constructed resolver returns it from \<open>get\<close>.  If the individual variable is set
  to the empty string, the key-name is among the missing ones and the construction
  raises the missing-keys error.
\<close>

theorem falsy_blob_entry:
  assumes "env ''API_KEYS'' = Some raw" and "raw \<noteq> []" and "loads raw = Inr (PDict d)"
    and "k \<in> set REQUIRED_KEYS" and "\<not> truthy (dict_get d k)"
  shows "(\<forall>s. env k = Some s \<and> s \<noteq> [] \<longrightarrow>
            map_of (snd (fallback env (load_combined loads env))) k = Some (PStr s)
            \<and> (\<forall>lg mgr. ApiKeyManager_init loads env = (lg, Inr mgr) \<longrightarrow> get mgr k = Inr (PStr s)))
       \<and> (env k = Some [] \<longrightarrow>
            k \<in> set (missing_keys (snd (fallback env (load_combined loads env))))
            \<and> snd (ApiKeyManager_init loads env) = Inl (DocumentPortalException ''Missing API keys'' None))"
proof -
  have lc: "load_combined loads env = ([log_info ''Loaded API_KEYS from ECS secret'' []], d)"
    using assms(1-3) by (rule load_combined_dict)
  have a: "\<forall>s. env k = Some s \<and> s \<noteq> [] \<longrightarrow>
            map_of (snd (fallback env (load_combined loads env))) k = Some (PStr s)
            \<and> (\<forall>lg mgr. ApiKeyManager_init loads env = (lg, Inr mgr) \<longrightarrow> get mgr k = Inr (PStr s))"
  proof (intro allI impI, elim conjE)
    fix s assume s: "env k = Some s" "s \<noteq> []"
    have m: "map_of (snd (fallback env (load_combined loads env))) k = Some (PStr s)"
      using assms(4,5) s by (simp add: fallback_map_of lc)
    have "\<forall>lg mgr. ApiKeyManager_init loads env = (lg, Inr mgr) \<longrightarrow> get mgr k = Inr (PStr s)"
    proof (intro allI impI)
      fix lg mgr assume "ApiKeyManager_init loads env = (lg, Inr mgr)"
      from init_success[OF this] obtain lg0 where
        "fallback env (load_combined loads env) = (lg0, api_keys mgr)" by blast
      with m have "map_of (api_keys mgr) k = Some (PStr s)" by simp
      with s show "get mgr k = Inr (PStr s)" by (simp add: get_def dict_get_def)
    qed
    with m show "map_of (snd (fallback env (load_combined loads env))) k = Some (PStr s)
            \<and> (\<forall>lg mgr. ApiKeyManager_init loads env = (lg, Inr mgr) \<longrightarrow> get mgr k = Inr (PStr s))"
      by simp
  qed
  have b: "env k = Some [] \<longrightarrow>
            k \<in> set (missing_keys (snd (fallback env (load_combined loads env))))
            \<and> snd (ApiKeyManager_init loads env) = Inl (DocumentPortalException ''Missing API keys'' None)"
  proof
    assume e: "env k = Some []"
    have mem: "k \<in> set (missing_keys (snd (fallback env (load_combined loads env))))"
      unfolding missing_after_fallback using assms(4,5) e by (simp add: lc)
    then have "missing_keys (snd (fallback env (load_combined loads env))) \<noteq> []" by auto
    from init_missing[OF this] mem
    show "k \<in> set (missing_keys (snd (fallback env (load_combined loads env))))
            \<and> snd (ApiKeyManager_init loads env) = Inl (DocumentPortalException ''Missing API keys'' None)"
      by simp
  qed
  from a b show ?thesis by blast
qed

theorem falsy_blob_entry_witness:
  "get \<lparr>api_keys = [(''GROQ_API_KEY'', PStr ''gsk_from_env''), (''GOOGLE_API_KEY'', PStr ''AIza''),
                    (''OPENAI_API_KEY'', PStr ''sk-ABCDEFGH'')]\<rparr> ''GROQ_API_KEY''
     = Inr (PStr ''gsk_from_env'')
   \<and> snd (ApiKeyManager_init (loads_table json_examples)
       (map_of [(''API_KEYS'', blob_falsy), (''GROQ_API_KEY'', []),
                (''GOOGLE_API_KEY'', ''AIza''), (''OPENAI_API_KEY'', ''sk-ABCDEFGH'')]))
     = Inl (DocumentPortalException ''Missing API keys'' None)"
proof -
  have l: "loads_table json_examples blob_falsy
           = Inr (PDict [(''GROQ_API_KEY'', PStr []), (''GOOGLE_API_KEY'', PNone)])"
    by (simp add: loads_table_def blob_defs)
  have n: "blob_falsy \<noteq> []" by (simp add: blob_falsy_def)
  have k: "''GROQ_API_KEY'' \<in> set REQUIRED_KEYS" by (simp add: REQUIRED_KEYS_def)
  have f: "\<not> truthy (dict_get [(''GROQ_API_KEY'', PStr []), (''GOOGLE_API_KEY'', PNone)] ''GROQ_API_KEY'')"
    by (simp add: dict_get_def)
  have a1: "map_of [(''API_KEYS'', blob_falsy), (''GROQ_API_KEY'', ''gsk_from_env''),
                    (''GOOGLE_API_KEY'', ''AIza''), (''OPENAI_API_KEY'', ''sk-ABCDEFGH'')] ''API_KEYS''
            = Some blob_falsy" by simp
  have a2: "map_of [(''API_KEYS'', blob_falsy), (''GROQ_API_KEY'', ''gsk_from_env''),
                    (''GOOGLE_API_KEY'', ''AIza''), (''OPENAI_API_KEY'', ''sk-ABCDEFGH'')] ''GROQ_API_KEY''
            = Some ''gsk_from_env'' \<and> ''gsk_from_env'' \<noteq> []" by simp
  have a3: "ApiKeyManager_init (loads_table json_examples)
       (map_of [(''API_KEYS'', blob_falsy), (''GROQ_API_KEY'', ''gsk_from_env''),
                (''GOOGLE_API_KEY'', ''AIza''), (''OPENAI_API_KEY'', ''sk-ABCDEFGH'')])
     = ([log_info ''Loaded API_KEYS from ECS secret'' [],
         log_info ''Loaded GROQ_API_KEY from individual env var'' [],
         log_info ''Loaded GOOGLE_API_KEY from individual env var'' [],
         log_info ''Loaded OPENAI_API_KEY from individual env var'' [],
         log_info ''API keys loaded''
           [(''keys'', Val (PDict [(''GROQ_API_KEY'', PStr ''gsk_fr...''),
                                   (''GOOGLE_API_KEY'', PStr ''AIza...''),
                                   (''OPENAI_API_KEY'', PStr ''sk-ABC...'')]))]],
        Inr \<lparr>api_keys = [(''GROQ_API_KEY'', PStr ''gsk_from_env''), (''GOOGLE_API_KEY'', PStr ''AIza''),
                          (''OPENAI_API_KEY'', PStr ''sk-ABCDEFGH'')]\<rparr>)"
    by (simp add: eval_defs blob_defs)
  have b1: "map_of [(''API_KEYS'', blob_falsy), (''GROQ_API_KEY'', []),
                    (''GOOGLE_API_KEY'', ''AIza''), (''OPENAI_API_KEY'', ''sk-ABCDEFGH'')] ''API_KEYS''
            = Some blob_falsy" by simp
  have b2: "map_of [(''API_KEYS'', blob_falsy), (''GROQ_API_KEY'', []),
                    (''GOOGLE_API_KEY'', ''AIza''), (''OPENAI_API_KEY'', ''sk-ABCDEFGH'')] ''GROQ_API_KEY''
            = Some []" by simp
  from falsy_blob_entry[where raw = blob_falsy and loads = "loads_table json_examples" and env = "map_of [(''API_KEYS'', blob_falsy), (''GROQ_API_KEY'', ''gsk_from_env''),
                    (''GOOGLE_API_KEY'', ''AIza''), (''OPENAI_API_KEY'', ''sk-ABCDEFGH'')]", OF a1 n l k f] a2 a3
  have "get \<lparr>api_keys = [(''GROQ_API_KEY'', PStr ''gsk_from_env''), (''GOOGLE_API_KEY'', PStr ''AIza''),
                    (''OPENAI_API_KEY'', PStr ''sk-ABCDEFGH'')]\<rparr> ''GROQ_API_KEY''
     = Inr (PStr ''gsk_from_env'')" by blast
  moreover from falsy_blob_entry[where raw = blob_falsy and loads = "loads_table json_examples" and env = "map_of [(''API_KEYS'', blob_falsy), (''GROQ_API_KEY'', []),
                    (''GOOGLE_API_KEY'', ''AIza''), (''OPENAI_API_KEY'', ''sk-ABCDEFGH'')]", OF b1 n l k f] b2
  have "snd (ApiKeyManager_init (loads_table json_examples)
       (map_of [(''API_KEYS'', blob_falsy), (''GROQ_API_KEY'', []),
                (''GOOGLE_API_KEY'', ''AIza''), (''OPENAI_API_KEY'', ''sk-ABCDEFGH'')]))
     = Inl (DocumentPortalException ''Missing API keys'' None)" by blast
  ultimately show ?thesis by blast
qed

section \<open>Key-names beyond the required ones\<close>

text \<open>
  Claim C10: a key-name of the combined secret that is not one of the three required
  ones is not filtered out.  When the construction succeeds it is in the credential
  set with its value, the success log shows the masked prefix of that value under
  its name, and \<open>get\<close> returns the value when it is non-empty.
\<close>

theorem extra_keys_kept:
  assumes "env ''API_KEYS'' = Some raw" and "raw \<noteq> []" and "loads raw = Inr (PDict d)"
    and "k \<notin> set REQUIRED_KEYS" and "map_of d k = Some v"
    and "ApiKeyManager_init loads env = (lg, Inr mgr)"
  shows "map_of (api_keys mgr) k = Some v
       \<and> (\<exists>s ms. v = PStr s \<and> lg \<noteq> []
             \<and> last lg = log_info ''API keys loaded'' [(''keys'', Val (PDict ms))]
             \<and> map_of ms k = Some (PStr (take 6 s @ ''...'')))
       \<and> (truthy v \<longrightarrow> get mgr k = Inr v)"
proof -
  have lc: "load_combined loads env = ([log_info ''Loaded API_KEYS from ECS secret'' []], d)"
    using assms(1-3) by (rule load_combined_dict)
  from init_success[OF assms(6)] obtain lg0 ms where
    f: "fallback env (load_combined loads env) = (lg0, api_keys mgr)" and
    m: "mask_items (api_keys mgr) = Inr ms" and
    l: "lg = lg0 @ [log_info ''API keys loaded'' [(''keys'', Val (PDict ms))]]"
    by blast
  have "map_of (snd (fallback env (load_combined loads env))) k = Some v"
    using assms(4,5) by (simp add: fallback_map_of lc)
  with f have kv: "map_of (api_keys mgr) k = Some v" by simp
  from mask_items_map_of[OF m kv] obtain s where
    s: "v = PStr s" "map_of ms k = Some (PStr (take 6 s @ ''...''))" by blast
  from kv have "truthy v \<longrightarrow> get mgr k = Inr v" by (simp add: get_def dict_get_def)
  with kv s l show ?thesis by auto
qed

theorem extra_keys_kept_witness:
  "map_of [(''GROQ_API_KEY'', PStr ''gsk_from_blob''), (''region'', PStr ''eu-west-1''),
           (''GOOGLE_API_KEY'', PStr ''AIza''), (''OPENAI_API_KEY'', PStr ''sk-ABCDEFGH'')] ''region''
     = Some (PStr ''eu-west-1'')
   \<and> (\<exists>ms. [(''keys'', Val (PDict [(''GROQ_API_KEY'', PStr ''gsk_fr...''),
                                    (''region'', PStr ''eu-wes...''),
                                    (''GOOGLE_API_KEY'', PStr ''AIza...''),
                                    (''OPENAI_API_KEY'', PStr ''sk-ABC...'')]))]
            = [(''keys'', Val (PDict ms))]
          \<and> map_of ms ''region'' = Some (PStr ''eu-wes...''))
   \<and> get \<lparr>api_keys = [(''GROQ_API_KEY'', PStr ''gsk_from_blob''), (''region'', PStr ''eu-west-1''),
                       (''GOOGLE_API_KEY'', PStr ''AIza''), (''OPENAI_API_KEY'', PStr ''sk-ABCDEFGH'')]\<rparr>
        ''region'' = Inr (PStr ''eu-west-1'')"
proof -
  have a1: "map_of [(''API_KEYS'', blob_extra), (''GOOGLE_API_KEY'', ''AIza''),
                    (''OPENAI_API_KEY'', ''sk-ABCDEFGH'')] ''API_KEYS'' = Some blob_extra" by simp
  have n: "blob_extra \<noteq> []" by (simp add: blob_extra_def)
  have l: "loads_table json_examples blob_extra
           = Inr (PDict [(''GROQ_API_KEY'', PStr ''gsk_from_blob''), (''region'', PStr ''eu-west-1'')])"
    by (simp add: loads_table_def blob_defs)
  have k: "''region'' \<notin> set REQUIRED_KEYS" by (simp add: REQUIRED_KEYS_def)
  have v: "map_of [(''GROQ_API_KEY'', PStr ''gsk_from_blob''), (''region'', PStr ''eu-west-1'')] ''region''
           = Some (PStr ''eu-west-1'')" by simp
  have i: "ApiKeyManager_init (loads_table json_examples)
       (map_of [(''API_KEYS'', blob_extra), (''GOOGLE_API_KEY'', ''AIza''),
                (''OPENAI_API_KEY'', ''sk-ABCDEFGH'')])
     = ([log_info ''Loaded API_KEYS from ECS secret'' [],
         log_info ''Loaded GOOGLE_API_KEY from individual env var'' [],
         log_info ''Loaded OPENAI_API_KEY from individual env var'' [],
         log_info ''API keys loaded''
           [(''keys'', Val (PDict [(''GROQ_API_KEY'', PStr ''gsk_fr...''),
                                   (''region'', PStr ''eu-wes...''),
                                   (''GOOGLE_API_KEY'', PStr ''AIza...''),
                                   (''OPENAI_API_KEY'', PStr ''sk-ABC...'')]))]],
        Inr \<lparr>api_keys = [(''GROQ_API_KEY'', PStr ''gsk_from_blob''), (''region'', PStr ''eu-west-1''),
                          (''GOOGLE_API_KEY'', PStr ''AIza''), (''OPENAI_API_KEY'', PStr ''sk-ABCDEFGH'')]\<rparr>)"
    by (simp add: eval_defs blob_defs)
  from extra_keys_kept[where raw = blob_extra and loads = "loads_table json_examples" and env = "map_of [(''API_KEYS'', blob_extra), (''GOOGLE_API_KEY'', ''AIza''),
                    (''OPENAI_API_KEY'', ''sk-ABCDEFGH'')]", OF a1 n l k v i] show ?thesis
    by (simp add: log_info_def)
qed

section \<open>Loading the embedding model\<close>

text \<open>
  Claim C3: every exception raised inside \<open>load_embeddings\<close> is logged and then
  wrapped.  Whether it comes from reading \<open>config["embedding_model"]\<close> or its
  \<open>model_name\<close>, from \<open>get("GOOGLE_API_KEY")\<close> or from the embeddings factory, the
  operation writes the error entry with \<open>str(e)\<close> of the original exception \<open>e\<close> as
  its last log entry and raises \<open>DocumentPortalException\<close> with the message
  \<open>Failed to load embedding model\<close>, which holds \<open>e\<close> as the exception that was
  being handled when it was raised.  When nothing raises, the result is what the
  factory returns on exactly the configured model name and the resolved
  \<open>GOOGLE_API_KEY\<close>.  The last part says that an error of \<open>load_embeddings\<close> is
  always of this wrapped form, around the exception of the \<open>try\<close> body.
\<close>

theorem load_embeddings_wraps:
  "(py_getitem (config self) ''embedding_model'' = Inl e \<longrightarrow>
      load_embeddings sdk self =
        ([log_error ''Error loading embedding model'' [(''error'', StrOf e)]],
         Inl (DocumentPortalException ''Failed to load embedding model'' (Some e))))
   \<and> (py_getitem (config self) ''embedding_model'' = Inr em \<and>
      py_getitem em ''model_name'' = Inl e \<longrightarrow>
      load_embeddings sdk self =
        ([log_error ''Error loading embedding model'' [(''error'', StrOf e)]],
         Inl (DocumentPortalException ''Failed to load embedding model'' (Some e))))
   \<and> (py_getitem (config self) ''embedding_model'' = Inr em \<and>
      py_getitem em ''model_name'' = Inr mn \<and>
      get (api_key_mgr self) ''GOOGLE_API_KEY'' = Inl e \<longrightarrow>
      load_embeddings sdk self =
        ([log_info ''Loading embedding model'' [(''model'', Val mn)],
          log_error ''Error loading embedding model'' [(''error'', StrOf e)]],
         Inl (DocumentPortalException ''Failed to load embedding model'' (Some e))))
   \<and> (py_getitem (config self) ''embedding_model'' = Inr em \<and>
      py_getitem em ''model_name'' = Inr mn \<and>
      get (api_key_mgr self) ''GOOGLE_API_KEY'' = Inr k \<and>
      sdk (GoogleGenerativeAIEmbeddings mn k) = Inl x \<longrightarrow>
      load_embeddings sdk self =
        ([log_info ''Loading embedding model'' [(''model'', Val mn)],
          log_error ''Error loading embedding model'' [(''error'', StrOf (SdkError x))]],
         Inl (DocumentPortalException ''Failed to load embedding model'' (Some (SdkError x)))))
   \<and> (py_getitem (config self) ''embedding_model'' = Inr em \<and>
      py_getitem em ''model_name'' = Inr mn \<and>
      get (api_key_mgr self) ''GOOGLE_API_KEY'' = Inr k \<and>
      sdk (GoogleGenerativeAIEmbeddings mn k) = Inr h \<longrightarrow>
      load_embeddings sdk self =
        ([log_info ''Loading embedding model'' [(''model'', Val mn)]], Inr h))
   \<and> (snd (load_embeddings sdk self) = Inl err \<longrightarrow>
      (\<exists>e0. snd (load_embeddings_try sdk self) = Inl e0
         \<and> err = DocumentPortalException ''Failed to load embedding model'' (Some e0)
         \<and> fst (load_embeddings sdk self) \<noteq> []
         \<and> last (fst (load_embeddings sdk self))
             = log_error ''Error loading embedding model'' [(''error'', StrOf e0)]))"
proof (intro conjI impI)
  assume "py_getitem (config self) ''embedding_model'' = Inl e"
  then show "load_embeddings sdk self =
        ([log_error ''Error loading embedding model'' [(''error'', StrOf e)]],
         Inl (DocumentPortalException ''Failed to load embedding model'' (Some e)))"
    by (simp add: load_embeddings_def load_embeddings_try_def)
next
  assume "py_getitem (config self) ''embedding_model'' = Inr em \<and>
      py_getitem em ''model_name'' = Inl e"
  then show "load_embeddings sdk self =
        ([log_error ''Error loading embedding model'' [(''error'', StrOf e)]],
         Inl (DocumentPortalException ''Failed to load embedding model'' (Some e)))"
    by (simp add: load_embeddings_def load_embeddings_try_def)
next
  assume "py_getitem (config self) ''embedding_model'' = Inr em \<and>
      py_getitem em ''model_name'' = Inr mn \<and>
      get (api_key_mgr self) ''GOOGLE_API_KEY'' = Inl e"
  then show "load_embeddings sdk self =
        ([log_info ''Loading embedding model'' [(''model'', Val mn)],
          log_error ''Error loading embedding model'' [(''error'', StrOf e)]],
         Inl (DocumentPortalException ''Failed to load embedding model'' (Some e)))"
    by (simp add: load_embeddings_def load_embeddings_try_def Let_def)
next
  assume "py_getitem (config self) ''embedding_model'' = Inr em \<and>
      py_getitem em ''model_name'' = Inr mn \<and>
      get (api_key_mgr self) ''GOOGLE_API_KEY'' = Inr k \<and>
      sdk (GoogleGenerativeAIEmbeddings mn k) = Inl x"
  then show "load_embeddings sdk self =
        ([log_info ''Loading embedding model'' [(''model'', Val mn)],
          log_error ''Error loading embedding model'' [(''error'', StrOf (SdkError x))]],
         Inl (DocumentPortalException ''Failed to load embedding model'' (Some (SdkError x))))"
    by (simp add: load_embeddings_def load_embeddings_try_def call_sdk_def Let_def)
next
  assume "py_getitem (config self) ''embedding_model'' = Inr em \<and>
      py_getitem em ''model_name'' = Inr mn \<and>
      get (api_key_mgr self) ''GOOGLE_API_KEY'' = Inr k \<and>
      sdk (GoogleGenerativeAIEmbeddings mn k) = Inr h"
  then show "load_embeddings sdk self =
        ([log_info ''Loading embedding model'' [(''model'', Val mn)]], Inr h)"
    by (simp add: load_embeddings_def load_embeddings_try_def call_sdk_def Let_def)
next
  assume a: "snd (load_embeddings sdk self) = Inl err"
  obtain lg r where t: "load_embeddings_try sdk self = (lg, r)"
    by (cases "load_embeddings_try sdk self")
  show "\<exists>e0. snd (load_embeddings_try sdk self) = Inl e0
         \<and> err = DocumentPortalException ''Failed to load embedding model'' (Some e0)
         \<and> fst (load_embeddings sdk self) \<noteq> []
         \<and> last (fst (load_embeddings sdk self))
             = log_error ''Error loading embedding model'' [(''error'', StrOf e0)]"
  proof (cases r)
    case (Inl e0)
    with a t show ?thesis by (simp add: load_embeddings_def)
  next
    case (Inr h)
    with a t show ?thesis by (simp add: load_embeddings_def)
  qed
qed

theorem load_embeddings_wraps_witness:
  "load_embeddings example_sdk example_loader =
     ([log_info ''Loading embedding model'' [(''model'', Val (PStr ''models/text-embedding-004''))]],
      Inr ''embeddings-client'')
   \<and> load_embeddings (sdk_table [] :: sdk_call \<Rightarrow> string + string) example_loader =
     ([log_info ''Loading embedding model'' [(''model'', Val (PStr ''models/text-embedding-004''))],
       log_error ''Error loading embedding model'' [(''error'', StrOf (SdkError ''unavailable''))]],
      Inl (DocumentPortalException ''Failed to load embedding model'' (Some (SdkError ''unavailable''))))
   \<and> load_embeddings example_sdk \<lparr>api_key_mgr = example_mgr, config = PDict []\<rparr> =
     ([log_error ''Error loading embedding model'' [(''error'', StrOf (KeyError ''embedding_model''))]],
      Inl (DocumentPortalException ''Failed to load embedding model''
             (Some (KeyError ''embedding_model''))))"
proof -
  have c1: "py_getitem (config example_loader) ''embedding_model''
              = Inr (PDict [(''model_name'', PStr ''models/text-embedding-004'')])"
    by (simp add: example_loader_def example_config_def py_getitem_def)
  have c2: "py_getitem (PDict [(''model_name'', PStr ''models/text-embedding-004'')]) ''model_name''
              = Inr (PStr ''models/text-embedding-004'')"
    by (simp add: py_getitem_def)
  have c3: "get (api_key_mgr example_loader) ''GOOGLE_API_KEY'' = Inr (PStr ''AIza'')"
    by (simp add: example_loader_def example_mgr_def get_def dict_get_def)
  have c4: "example_sdk (GoogleGenerativeAIEmbeddings (PStr ''models/text-embedding-004'') (PStr ''AIza''))
              = Inr ''embeddings-client''"
    by (simp add: example_sdk_def sdk_table_def)
  have c5: "(sdk_table [] :: sdk_call \<Rightarrow> string + string)
              (GoogleGenerativeAIEmbeddings (PStr ''models/text-embedding-004'') (PStr ''AIza''))
              = Inl ''unavailable''"
    by (simp add: sdk_table_def)
  have c6: "py_getitem (config \<lparr>api_key_mgr = example_mgr, config = PDict []\<rparr>) ''embedding_model''
              = Inl (KeyError ''embedding_model'')"
    by (simp add: py_getitem_def)
  note w1 = load_embeddings_wraps[where sdk = example_sdk and self = example_loader
      and em = "PDict [(''model_name'', PStr ''models/text-embedding-004'')]"
      and mn = "PStr ''models/text-embedding-004''" and k = "PStr ''AIza''"
      and h = "''embeddings-client''"]
  note w2 = load_embeddings_wraps[where sdk = "sdk_table [] :: sdk_call \<Rightarrow> string + string"
      and self = example_loader
      and em = "PDict [(''model_name'', PStr ''models/text-embedding-004'')]"
      and mn = "PStr ''models/text-embedding-004''" and k = "PStr ''AIza''"
      and x = "''unavailable''"]
  note w3 = load_embeddings_wraps[where sdk = example_sdk
      and self = "\<lparr>api_key_mgr = example_mgr, config = PDict []\<rparr>"
      and e = "KeyError ''embedding_model''"]
  from w1 c1 c2 c3 c4 have r1: "load_embeddings example_sdk example_loader =
     ([log_info ''Loading embedding model'' [(''model'', Val (PStr ''models/text-embedding-004''))]],
      Inr ''embeddings-client'')" by blast
  from w2 c1 c2 c3 c5 have r2: "load_embeddings (sdk_table [] :: sdk_call \<Rightarrow> string + string) example_loader =
     ([log_info ''Loading embedding model'' [(''model'', Val (PStr ''models/text-embedding-004''))],
       log_error ''Error loading embedding model'' [(''error'', StrOf (SdkError ''unavailable''))]],
      Inl (DocumentPortalException ''Failed to load embedding model'' (Some (SdkError ''unavailable''))))"
    by blast
  from w3 c6 have r3: "load_embeddings example_sdk \<lparr>api_key_mgr = example_mgr, config = PDict []\<rparr> =
     ([log_error ''Error loading embedding model'' [(''error'', StrOf (KeyError ''embedding_model''))]],
      Inl (DocumentPortalException ''Failed to load embedding model''
             (Some (KeyError ''embedding_model''))))" by blast
  from r1 r2 r3 show ?thesis by blast
qed

section \<open>The default provider\<close>

text \<open>
  Claim C6: with \<open>LLM_PROVIDER\<close> unset and an \<open>openai\<close> entry in the \<open>llm\<close> block of
  the configuration that has the provider tag \<open>openai\<close>, the model name \<open>gpt-x\<close>, the
  temperature \<open>0.1\<close> and no \<open>max_output_tokens\<close>, \<open>load_llm\<close> of a loader whose
  resolver was constructed logs the provider and the model and returns what the
  \<open>ChatOpenAI\<close> factory does on the model \<open>gpt-x\<close>, the resolved \<open>OPENAI_API_KEY\<close>,
  the temperature \<open>0.1\<close> and the default of 2048 tokens.
\<close>

theorem load_llm_openai_default:
  assumes "env ''LLM_PROVIDER'' = None"
    and "py_getitem (config self) ''llm'' = Inr (PDict llm_block)"
    and "map_of llm_block ''openai'' = Some (PDict entry)"
    and "map_of entry ''provider'' = Some (PStr ''openai'')"
    and "map_of entry ''model_name'' = Some (PStr ''gpt-x'')"
    and "map_of entry ''temperature'' = Some (PFloat (1 / 10))"
    and "map_of entry ''max_output_tokens'' = None"
    and "ApiKeyManager_init loads env0 = (lg0, Inr (api_key_mgr self))"
  shows "\<exists>key. key \<noteq> [] \<and> map_of (api_keys (api_key_mgr self)) ''OPENAI_API_KEY'' = Some (PStr key)
           \<and> load_llm sdk rp env self =
               ([log_info ''Loading LLM''
                   [(''provider'', Val (PStr ''openai'')), (''model'', Val (PStr ''gpt-x''))]],
                call_sdk sdk (ChatOpenAI (PStr ''gpt-x'') (PStr key) (PFloat (1 / 10)) (PInt 2048)))"
proof -
  have "''OPENAI_API_KEY'' \<in> set REQUIRED_KEYS" by (simp add: REQUIRED_KEYS_def)
  from init_required_str[OF assms(8) this] obtain key where
    key: "key \<noteq> []" "map_of (api_keys (api_key_mgr self)) ''OPENAI_API_KEY'' = Some (PStr key)"
      "get (api_key_mgr self) ''OPENAI_API_KEY'' = Inr (PStr key)" by blast
  have pk: "provider_key_of env = ''openai''" using assms(1) by (simp add: provider_key_of_def)
  from assms(3) have "(''openai'', PDict entry) \<in> set llm_block" by (rule map_of_SomeD)
  then have "''openai'' \<in> fst ` set llm_block" by force
  then have c: "py_contains ''openai'' (PDict llm_block) = Inr True" by (simp add: py_contains_def)
  have g: "py_getitem (PDict llm_block) ''openai'' = Inr (PDict entry)"
    using assms(3) by (simp add: py_getitem_def)
  have d: "dispatch sdk rp self (PStr ''openai'') (PStr ''gpt-x'') (PFloat (1 / 10)) (PInt 2048)
           = ([], call_sdk sdk (ChatOpenAI (PStr ''gpt-x'') (PStr key) (PFloat (1 / 10)) (PInt 2048)))"
    using key(3) by (simp add: dispatch_def)
  have e: "load_entry sdk rp self (PDict entry) =
             ([log_info ''Loading LLM''
                 [(''provider'', Val (PStr ''openai'')), (''model'', Val (PStr ''gpt-x''))]],
              call_sdk sdk (ChatOpenAI (PStr ''gpt-x'') (PStr key) (PFloat (1 / 10)) (PInt 2048)))"
    using assms(4-7) by (simp add: load_entry_def py_get_def d Let_def)
  have "load_llm sdk rp env self =
          ([log_info ''Loading LLM''
              [(''provider'', Val (PStr ''openai'')), (''model'', Val (PStr ''gpt-x''))]],
           call_sdk sdk (ChatOpenAI (PStr ''gpt-x'') (PStr key) (PFloat (1 / 10)) (PInt 2048)))"
    by (simp add: load_llm_def assms(2) pk c g e Let_def)
  with key show ?thesis by blast
qed


theorem load_llm_openai_default_witness:
  "load_llm example_sdk example_repr (map_of []) example_loader =
     ([log_info ''Loading LLM''
         [(''provider'', Val (PStr ''openai'')), (''model'', Val (PStr ''gpt-x''))]],
      call_sdk example_sdk
        (ChatOpenAI (PStr ''gpt-x'') (PStr ''sk-ABCDEFGH'') (PFloat (1 / 10)) (PInt 2048)))
   \<and> call_sdk example_sdk
        (ChatOpenAI (PStr ''gpt-x'') (PStr ''sk-ABCDEFGH'') (PFloat (1 / 10)) (PInt 2048))
       = Inr ''openai-chat-client''"
proof -
  have a1: "(map_of [] :: environ) ''LLM_PROVIDER'' = None" by simp
  have a2: "py_getitem (config example_loader) ''llm'' = Inr (PDict
               [(''openai'', PDict [(''provider'', PStr ''openai''), (''model_name'', PStr ''gpt-x''),
                                    (''temperature'', PFloat (1 / 10))]),
                (''groq'', PDict [(''provider'', PStr ''groq''), (''model_name'', PStr ''llama''),
                                  (''temperature'', PInt 0), (''max_output_tokens'', PInt 512)]),
                (''legacy'', PDict [(''provider'', PStr ''anthropic''), (''model_name'', PStr ''m'')])])"
    by (simp add: example_loader_def example_config_def py_getitem_def)
  have a3: "map_of
               [(''openai'', PDict [(''provider'', PStr ''openai''), (''model_name'', PStr ''gpt-x''),
                                    (''temperature'', PFloat (1 / 10))]),
                (''groq'', PDict [(''provider'', PStr ''groq''), (''model_name'', PStr ''llama''),
                                  (''temperature'', PInt 0), (''max_output_tokens'', PInt 512)]),
                (''legacy'', PDict [(''provider'', PStr ''anthropic''), (''model_name'', PStr ''m'')])]
               ''openai''
            = Some (PDict [(''provider'', PStr ''openai''), (''model_name'', PStr ''gpt-x''),
                           (''temperature'', PFloat (1 / 10))])"
    by simp
  have a4: "map_of [(''provider'', PStr ''openai''), (''model_name'', PStr ''gpt-x''),
                    (''temperature'', PFloat (1 / 10))] ''provider'' = Some (PStr ''openai'')"
    by simp
  have a5: "map_of [(''provider'', PStr ''openai''), (''model_name'', PStr ''gpt-x''),
                    (''temperature'', PFloat (1 / 10))] ''model_name'' = Some (PStr ''gpt-x'')"
    by simp
  have a6: "map_of [(''provider'', PStr ''openai''), (''model_name'', PStr ''gpt-x''),
                    (''temperature'', PFloat (1 / 10))] ''temperature'' = Some (PFloat (1 / 10))"
    by simp
  have a7: "map_of [(''provider'', PStr ''openai''), (''model_name'', PStr ''gpt-x''),
                    (''temperature'', PFloat (1 / 10))] ''max_output_tokens'' = None"
    by simp
  have a8: "ApiKeyManager_init (loads_table [])
     (map_of [(''GROQ_API_KEY'', ''gsk_0123456789''), (''GOOGLE_API_KEY'', ''AIza''),
              (''OPENAI_API_KEY'', ''sk-ABCDEFGH'')])
   = ([log_info ''Loaded GROQ_API_KEY from individual env var'' [],
       log_info ''Loaded GOOGLE_API_KEY from individual env var'' [],
       log_info ''Loaded OPENAI_API_KEY from individual env var'' [],
       log_info ''API keys loaded''
         [(''keys'', Val (PDict [(''GROQ_API_KEY'', PStr ''gsk_01...''),
                                 (''GOOGLE_API_KEY'', PStr ''AIza...''),
                                 (''OPENAI_API_KEY'', PStr ''sk-ABC...'')]))]],
      Inr (api_key_mgr example_loader))"
    using init_individual_example by (simp add: example_loader_def example_mgr_def)
  have a9: "call_sdk example_sdk
        (ChatOpenAI (PStr ''gpt-x'') (PStr ''sk-ABCDEFGH'') (PFloat (1 / 10)) (PInt 2048))
       = Inr ''openai-chat-client''"
    by (simp add: call_sdk_def example_sdk_def sdk_table_def)
  have a10: "map_of (api_keys (api_key_mgr example_loader)) ''OPENAI_API_KEY'' = Some (PStr ''sk-ABCDEFGH'')"
    by (simp add: example_loader_def example_mgr_def)
  from load_llm_openai_default[where env = "map_of []" and self = example_loader
      and sdk = example_sdk and rp = example_repr, OF a1 a2 a3 a4 a5 a6 a7 a8]
  obtain key where k: "map_of (api_keys (api_key_mgr example_loader)) ''OPENAI_API_KEY'' = Some (PStr key)"
    and l: "load_llm example_sdk example_repr (map_of []) example_loader =
               ([log_info ''Loading LLM''
                   [(''provider'', Val (PStr ''openai'')), (''model'', Val (PStr ''gpt-x''))]],
                call_sdk example_sdk (ChatOpenAI (PStr ''gpt-x'') (PStr key) (PFloat (1 / 10)) (PInt 2048)))"
    by blast
  from k a10 have "key = ''sk-ABCDEFGH''" by simp
  with l a9 show ?thesis by simp
qed


section \<open>The validation errors of \<open>load_llm\<close>\<close>




end
